theory Spec2Isabelle
  imports Complex_Main
begin

section \<open>Python values used by the transaction service\<close>

text \<open>
  The service is Python. A \<open>str\<close> is modelled as a HOL \<open>string\<close> whose characters are
  read as the code points U+0000 to U+00FF; texts with code points beyond that range are
  outside the model. A \<open>float\<close> is modelled as a \<open>real\<close>: arithmetic and comparisons are
  exact, binary rounding is not modelled. Exceptions are values of \<open>py_error\<close>, returned
  on the left of a sum. Every function that calls \<open>datetime.now()\<close> takes the clock
  reading as its argument \<open>now\<close>.
\<close>

datatype py_error = ValueError | IndexError | ZeroDivisionError

definition ord :: "char \<Rightarrow> nat" where
  "ord c = of_char c"

definition is_digit :: "char \<Rightarrow> bool" where
  "is_digit c = (48 \<le> ord c \<and> ord c \<le> 57)"

definition is_ascii_upper :: "char \<Rightarrow> bool" where
  "is_ascii_upper c = (65 \<le> ord c \<and> ord c \<le> 90)"

definition is_ascii_lower :: "char \<Rightarrow> bool" where
  "is_ascii_lower c = (97 \<le> ord c \<and> ord c \<le> 122)"

definition is_word :: "char \<Rightarrow> bool" where
  \<comment> \<open>\<open>\w\<close> of a \<open>str\<close> pattern: alphanumeric code points and the underscore.\<close>
  "is_word c = (let n = ord c in
     is_digit c \<or> is_ascii_upper c \<or> is_ascii_lower c \<or> n = 95
     \<or> n = 170 \<or> n = 178 \<or> n = 179 \<or> n = 181 \<or> n = 185 \<or> n = 186
     \<or> (188 \<le> n \<and> n \<le> 190) \<or> (192 \<le> n \<and> n \<le> 214)
     \<or> (216 \<le> n \<and> n \<le> 246) \<or> 248 \<le> n)"

definition is_space :: "char \<Rightarrow> bool" where
  \<comment> \<open>the characters \<open>str.strip()\<close> removes\<close>
  "is_space c = (let n = ord c in
     (9 \<le> n \<and> n \<le> 13) \<or> (28 \<le> n \<and> n \<le> 32) \<or> n = 133 \<or> n = 160)"

definition lower_char :: "char \<Rightarrow> char" where
  "lower_char c = (let n = ord c in
     if is_ascii_upper c \<or> (192 \<le> n \<and> n \<le> 222 \<and> n \<noteq> 215) then char_of (n + 32) else c)"

definition lower :: "string \<Rightarrow> string" where
  "lower s = map lower_char s"

definition strip :: "string \<Rightarrow> string" where
  "strip s = rev (dropWhile is_space (rev (dropWhile is_space s)))"

fun startswith :: "string \<Rightarrow> string \<Rightarrow> bool" where
  "startswith s [] = True"
| "startswith [] (p # ps) = False"
| "startswith (c # cs) (p # ps) = (c = p \<and> startswith cs ps)"

fun str_in :: "string \<Rightarrow> string \<Rightarrow> bool" where
  \<comment> \<open>\<open>needle in hay\<close> on strings: substring test\<close>
  "str_in needle [] = (needle = [])"
| "str_in needle (c # cs) = (startswith (c # cs) needle \<or> str_in needle cs)"

definition replace_comma :: "string \<Rightarrow> string" where
  \<comment> \<open>\<open>s.replace(',', '')\<close>\<close>
  "replace_comma s = filter (\<lambda>c. c \<noteq> CHR '','') s"

fun split_on :: "char \<Rightarrow> string \<Rightarrow> string list" where
  \<comment> \<open>\<open>s.split(sep)\<close> for a one-character separator\<close>
  "split_on sep [] = [[]]"
| "split_on sep (c # cs) =
     (if c = sep then [] # split_on sep cs
      else (case split_on sep cs of [] \<Rightarrow> [[c]] | w # ws \<Rightarrow> (c # w) # ws))"

definition digits_value :: "string \<Rightarrow> nat" where
  "digits_value s = foldl (\<lambda>n c. 10 * n + (ord c - 48)) 0 s"

definition py_int :: "string \<Rightarrow> py_error + int" where
  \<comment> \<open>\<open>int(s)\<close> on the strings a \<open>\d\<close> group can hold: decimal digits, at least one.\<close>
  "py_int s = (if s \<noteq> [] \<and> list_all is_digit s then Inr (int (digits_value s))
               else Inl ValueError)"

definition py_float :: "string \<Rightarrow> py_error + real" where
  \<comment> \<open>\<open>float(s)\<close> on the strings an amount group can hold once the commas are removed:
      digits, an optional dot, digits. Without any digit Python raises ValueError.\<close>
  "py_float s =
     (let ip = takeWhile is_digit s; r = dropWhile is_digit s in
      case r of
        [] \<Rightarrow> if ip = [] then Inl ValueError else Inr (real (digits_value ip))
      | c # fp \<Rightarrow>
          if c = CHR ''.'' \<and> list_all is_digit fp \<and> \<not> (ip = [] \<and> fp = [])
          then Inr (real (digits_value ip) + real (digits_value fp) / 10 ^ length fp)
          else Inl ValueError)"

subsection \<open>datetime\<close>

record datetime =
  year :: int
  month :: int
  day :: int
  hour :: int
  minute :: int
  second :: int
  microsecond :: int

definition is_leap :: "int \<Rightarrow> bool" where
  "is_leap y = (y mod 4 = 0 \<and> (y mod 100 \<noteq> 0 \<or> y mod 400 = 0))"

definition days_in_month :: "int \<Rightarrow> int \<Rightarrow> int" where
  "days_in_month y m =
     (if m = 2 then (if is_leap y then 29 else 28)
      else if m = 4 \<or> m = 6 \<or> m = 9 \<or> m = 11 then 30 else 31)"

definition days_before_year :: "int \<Rightarrow> int" where
  "days_before_year y = (y - 1) * 365 + (y - 1) div 4 - (y - 1) div 100 + (y - 1) div 400"

definition days_before_month :: "int \<Rightarrow> int \<Rightarrow> int" where
  "days_before_month y m =
     [0, 31, 59, 90, 120, 151, 181, 212, 243, 273, 304, 334] ! nat (m - 1)
     + (if m > 2 \<and> is_leap y then 1 else 0)"

definition toordinal :: "datetime \<Rightarrow> int" where
  "toordinal d = days_before_year (year d) + days_before_month (year d) (month d) + day d"

definition weekday :: "datetime \<Rightarrow> int" where
  "weekday d = (toordinal d + 6) mod 7"

definition mk_datetime :: "int \<Rightarrow> int \<Rightarrow> int \<Rightarrow> int \<Rightarrow> int \<Rightarrow> py_error + datetime" where
  \<comment> \<open>the constructor \<open>datetime(year, month, day, hour, minute)\<close> with its range checks\<close>
  "mk_datetime y m d h mi =
     (if 1 \<le> y \<and> y \<le> 9999 \<and> 1 \<le> m \<and> m \<le> 12 \<and> 1 \<le> d \<and> d \<le> days_in_month y m
         \<and> 0 \<le> h \<and> h \<le> 23 \<and> 0 \<le> mi \<and> mi \<le> 59
      then Inr \<lparr>year = y, month = m, day = d, hour = h, minute = mi, second = 0, microsecond = 0\<rparr>
      else Inl ValueError)"

definition date :: "int \<Rightarrow> int \<Rightarrow> int \<Rightarrow> datetime" where
  \<comment> \<open>\<open>datetime(y, m, d)\<close> for the literal dates of the goal registry\<close>
  "date y m d = \<lparr>year = y, month = m, day = d, hour = 0, minute = 0, second = 0, microsecond = 0\<rparr>"

definition to_microseconds :: "datetime \<Rightarrow> int" where
  "to_microseconds d =
     ((toordinal d * 24 + hour d) * 60 + minute d) * 60000000 + second d * 1000000 + microsecond d"

definition delta_days :: "datetime \<Rightarrow> datetime \<Rightarrow> int" where
  \<comment> \<open>\<open>(a - b).days\<close>: the timedelta is normalised, so its days are rounded down\<close>
  "delta_days a b = (to_microseconds a - to_microseconds b) div 86400000000"

section \<open>The regular expressions of the parsers\<close>

text \<open>
  The patterns only use literals, the classes \<open>\d\<close>, \<open>\w\<close>, \<open>[\d,]\<close>, \<open>[A-Z0-9]\<close> and
  \<open>.\<close>, the quantifiers \<open>?\<close>, \<open>*\<close>, \<open>+\<close>, \<open>*?\<close> and \<open>{n}\<close> on single characters,
  and flat capture groups. \<open>rmatch\<close> is the backtracking matcher of Python's \<open>re\<close> for
  this fragment: a greedy quantifier tries the longer match first, a lazy one the shorter,
  and the first complete match found is returned with its groups.
\<close>

datatype cls = CDigit | CWord | CDigitComma | CUpperDigit | CAny | CLit char

datatype quant = Once | Opt | Star | Plus | LazyStar | Times nat

datatype item = Atom cls quant | GOpen | GClose

fun cmatch :: "bool \<Rightarrow> cls \<Rightarrow> char \<Rightarrow> bool" where
  "cmatch ic CDigit c = is_digit c"
| "cmatch ic CWord c = is_word c"
| "cmatch ic CDigitComma c = (is_digit c \<or> c = CHR '','')"
| "cmatch ic CUpperDigit c = (is_ascii_upper c \<or> is_digit c \<or> (ic \<and> is_ascii_lower c))"
| "cmatch ic CAny c = (ord c \<noteq> 10)"
| "cmatch ic (CLit x) c = (c = x \<or> (ic \<and> lower_char c = lower_char x))"

definition push :: "char \<Rightarrow> string option \<Rightarrow> string option" where
  "push c cur = map_option (\<lambda>w. w @ [c]) cur"

fun rmatch :: "bool \<Rightarrow> item list \<Rightarrow> string \<Rightarrow> string list \<Rightarrow> string option \<Rightarrow> string list option"
  where
  "rmatch ic [] s gs cur = Some gs"
| "rmatch ic (GOpen # r) s gs cur = rmatch ic r s gs (Some [])"
| "rmatch ic (GClose # r) s gs cur =
     rmatch ic r s (gs @ [case cur of None \<Rightarrow> [] | Some w \<Rightarrow> w]) None"
| "rmatch ic (Atom a Once # r) s gs cur =
     (case s of [] \<Rightarrow> None
      | c # cs \<Rightarrow> if cmatch ic a c then rmatch ic r cs gs (push c cur) else None)"
| "rmatch ic (Atom a Opt # r) s gs cur =
     (case (case s of [] \<Rightarrow> None
            | c # cs \<Rightarrow> if cmatch ic a c then rmatch ic r cs gs (push c cur) else None) of
        Some g \<Rightarrow> Some g
      | None \<Rightarrow> rmatch ic r s gs cur)"
| "rmatch ic (Atom a Star # r) s gs cur =
     (case (case s of [] \<Rightarrow> None
            | c # cs \<Rightarrow> if cmatch ic a c then rmatch ic (Atom a Star # r) cs gs (push c cur)
                        else None) of
        Some g \<Rightarrow> Some g
      | None \<Rightarrow> rmatch ic r s gs cur)"
| "rmatch ic (Atom a Plus # r) s gs cur =
     (case s of [] \<Rightarrow> None
      | c # cs \<Rightarrow> if cmatch ic a c then rmatch ic (Atom a Star # r) cs gs (push c cur)
                  else None)"
| "rmatch ic (Atom a LazyStar # r) s gs cur =
     (case rmatch ic r s gs cur of
        Some g \<Rightarrow> Some g
      | None \<Rightarrow>
         (case s of [] \<Rightarrow> None
          | c # cs \<Rightarrow> if cmatch ic a c then rmatch ic (Atom a LazyStar # r) cs gs (push c cur)
                      else None))"
| "rmatch ic (Atom a (Times n) # r) s gs cur =
     (if n = 0 then rmatch ic r s gs cur
      else (case s of [] \<Rightarrow> None
            | c # cs \<Rightarrow> if cmatch ic a c then rmatch ic (Atom a (Times (n - 1)) # r) cs gs (push c cur)
                        else None))"

fun rsearch :: "bool \<Rightarrow> item list \<Rightarrow> string \<Rightarrow> string list option" where
  \<comment> \<open>\<open>re.search\<close>: the leftmost start position at which the pattern matches\<close>
  "rsearch ic p s =
     (case rmatch ic p s [] None of
        Some g \<Rightarrow> Some g
      | None \<Rightarrow> (case s of [] \<Rightarrow> None | c # cs \<Rightarrow> rsearch ic p cs))"

definition lit :: "string \<Rightarrow> item list" where
  "lit s = map (\<lambda>c. Atom (CLit c) Once) s"


section \<open>parsers.py: the SMS parser\<close>

datatype meta_value = MStr string | MList "string list"

record ParsedTransaction =
  amount :: real
  currency :: string
  transaction_type :: string
  timestamp :: datetime
  account_ref :: "string option"
  merchant :: "string option"
  reference :: "string option"
  confidence :: real
  raw_message :: string
  channel :: string
  meta :: "(string \<times> meta_value) list"

record pattern_info =
  regex :: "item list"
  ptype :: string
  pconfidence :: real
  pfields :: "string list"

definition amount_group :: "item list" where
  \<comment> \<open>\<open>([\d,]+\.?\d*)\<close>\<close>
  "amount_group =
     [GOpen, Atom CDigitComma Plus, Atom (CLit CHR ''.'') Opt, Atom CDigit Star, GClose]"

definition date_group :: "item list" where
  \<comment> \<open>\<open>(\d{2}-\d{2}-\d{4})\<close>\<close>
  "date_group =
     [GOpen, Atom CDigit (Times 2), Atom (CLit CHR ''-'') Once, Atom CDigit (Times 2),
      Atom (CLit CHR ''-'') Once, Atom CDigit (Times 4), GClose]"

definition time_group :: "item list" where
  \<comment> \<open>\<open>(\d{4})\<close>\<close>
  "time_group = [GOpen, Atom CDigit (Times 4), GClose]"

definition card_regex :: "item list" where
  \<comment> \<open>\<open>INR ([\d,]+\.?\d*) spent on.*?(\w+ Credit Card) (XX\d+) at (.*?) on (\d{2}-\d{2}-\d{4}) (\d{4})\<close>\<close>
  "card_regex =
     lit ''INR '' @ amount_group @ lit '' spent on'' @ [Atom CAny LazyStar]
     @ [GOpen, Atom CWord Plus] @ lit '' Credit Card'' @ [GClose] @ lit '' ''
     @ [GOpen] @ lit ''XX'' @ [Atom CDigit Plus, GClose] @ lit '' at ''
     @ [GOpen, Atom CAny LazyStar, GClose] @ lit '' on '' @ date_group @ lit '' '' @ time_group"

definition neft_regex :: "item list" where
  \<comment> \<open>\<open>INR ([\d,]+\.?\d*) credited to AC (\d+) (\w+) via NEFT on (\d{2}-\d{2}-\d{4}) (\d{4})\. Ref ([A-Z0-9]+)\<close>\<close>
  "neft_regex =
     lit ''INR '' @ amount_group @ lit '' credited to AC '' @ [GOpen, Atom CDigit Plus, GClose]
     @ lit '' '' @ [GOpen, Atom CWord Plus, GClose] @ lit '' via NEFT on '' @ date_group
     @ lit '' '' @ time_group @ lit ''. Ref '' @ [GOpen, Atom CUpperDigit Plus, GClose]"

definition upi_regex :: "item list" where
  \<comment> \<open>\<open>INR ([\d,]+\.?\d*) paid to (.*?) via UPI Ref ([A-Z0-9]+) on (\d{2}-\d{2}-\d{4}) (\d{4})\<close>\<close>
  "upi_regex =
     lit ''INR '' @ amount_group @ lit '' paid to '' @ [GOpen, Atom CAny LazyStar, GClose]
     @ lit '' via UPI Ref '' @ [GOpen, Atom CUpperDigit Plus, GClose] @ lit '' on ''
     @ date_group @ lit '' '' @ time_group"

definition reminder_regex :: "item list" where
  \<comment> \<open>\<open>Reminder.*?payment of INR ([\d,]+) due on (\d{2}-\d{2}-\d{4}) for (\w+) (XX\d+)\<close>\<close>
  "reminder_regex =
     lit ''Reminder'' @ [Atom CAny LazyStar] @ lit ''payment of INR ''
     @ [GOpen, Atom CDigitComma Plus, GClose] @ lit '' due on '' @ date_group @ lit '' for ''
     @ [GOpen, Atom CWord Plus, GClose] @ lit '' '' @ [GOpen] @ lit ''XX''
     @ [Atom CDigit Plus, GClose]"

definition generic_regex :: "item list" where
  \<comment> \<open>\<open>INR ([\d,]+\.?\d*)\<close>\<close>
  "generic_regex = lit ''INR '' @ amount_group"

definition patterns :: "pattern_info list" where
  "patterns =
     [\<lparr>regex = card_regex, ptype = ''debit'', pconfidence = 0.95,
       pfields = [''amount'', ''account_type'', ''account_ref'', ''merchant'', ''date'', ''time'']\<rparr>,
      \<lparr>regex = neft_regex, ptype = ''credit'', pconfidence = 0.95,
       pfields = [''amount'', ''account_ref'', ''bank'', ''date'', ''time'', ''reference'']\<rparr>,
      \<lparr>regex = upi_regex, ptype = ''debit'', pconfidence = 0.90,
       pfields = [''amount'', ''merchant'', ''reference'', ''date'', ''time'']\<rparr>,
      \<lparr>regex = reminder_regex, ptype = ''bill'', pconfidence = 0.85,
       pfields = [''amount'', ''due_date'', ''bank'', ''account_ref'']\<rparr>]"

fun index_where :: "('a \<Rightarrow> bool) \<Rightarrow> 'a list \<Rightarrow> nat option" where
  \<comment> \<open>\<open>next((i for i, f in enumerate(xs) if P f), None)\<close>\<close>
  "index_where P [] = None"
| "index_where P (x # xs) =
     (if P x then Some 0 else map_option Suc (index_where P xs))"

definition item_at :: "'a list \<Rightarrow> nat \<Rightarrow> py_error + 'a" where
  \<comment> \<open>\<open>xs[i]\<close> for a non-negative index\<close>
  "item_at xs i = (if i < length xs then Inr (xs ! i) else Inl IndexError)"

definition compose_timestamp :: "string \<Rightarrow> string \<Rightarrow> py_error + datetime" where
  \<comment> \<open>the body of the \<open>try\<close> block of \<open>_parse_timestamp\<close>\<close>
  "compose_timestamp date_str time_str =
     (case split_on CHR ''-'' date_str of
        [d, m, y] \<Rightarrow>
          (case py_int (take 2 time_str) of Inl e \<Rightarrow> Inl e
           | Inr h \<Rightarrow>
          (case py_int (drop 2 time_str) of Inl e \<Rightarrow> Inl e
           | Inr mi \<Rightarrow>
          (case py_int y of Inl e \<Rightarrow> Inl e
           | Inr yy \<Rightarrow>
          (case py_int m of Inl e \<Rightarrow> Inl e
           | Inr mm \<Rightarrow>
          (case py_int d of Inl e \<Rightarrow> Inl e
           | Inr dd \<Rightarrow> mk_datetime yy mm dd h mi)))))
      | _ \<Rightarrow> Inl ValueError)"

definition parse_timestamp :: "datetime \<Rightarrow> string list \<Rightarrow> string list \<Rightarrow> py_error + datetime" where
  \<comment> \<open>\<open>_parse_timestamp\<close>; the first argument is what \<open>datetime.now()\<close> returns\<close>
  "parse_timestamp now groups flds =
     (case (index_where (str_in ''date'') flds, index_where (str_in ''time'') flds) of
        (Some date_idx, Some time_idx) \<Rightarrow>
          (case item_at groups date_idx of Inl e \<Rightarrow> Inl e
           | Inr date_str \<Rightarrow>
          (case item_at groups time_idx of Inl e \<Rightarrow> Inl e
           | Inr time_str \<Rightarrow>
          (case compose_timestamp date_str time_str of
             Inr ts \<Rightarrow> Inr ts
           | Inl e \<Rightarrow> Inr now)))
      | _ \<Rightarrow> Inr now)"

fun extract_field :: "string list \<Rightarrow> string list \<Rightarrow> string list \<Rightarrow> string option" where
  \<comment> \<open>\<open>_extract_field\<close>\<close>
  "extract_field groups flds [] = None"
| "extract_field groups flds (target # targets) =
     (case index_where (\<lambda>f. f = target) flds of
        None \<Rightarrow> extract_field groups flds targets
      | Some idx \<Rightarrow>
          if idx < length groups then Some (groups ! idx)
          else extract_field groups flds targets)"

definition extract_transaction_data ::
  "datetime \<Rightarrow> string list \<Rightarrow> pattern_info \<Rightarrow> string \<Rightarrow> py_error + ParsedTransaction" where
  \<comment> \<open>\<open>_extract_transaction_data\<close>; \<open>groups\<close> is \<open>match.groups()\<close>\<close>
  "extract_transaction_data now groups pattern raw =
     (case item_at groups 0 of Inl e \<Rightarrow> Inl e
      | Inr g0 \<Rightarrow>
     (case py_float (replace_comma g0) of Inl e \<Rightarrow> Inl e
      | Inr amt \<Rightarrow>
     (case parse_timestamp now groups (pfields pattern) of Inl e \<Rightarrow> Inl e
      | Inr ts \<Rightarrow>
        Inr \<lparr>amount = amt, currency = ''INR'', transaction_type = ptype pattern,
             timestamp = ts,
             account_ref = extract_field groups (pfields pattern) [''account_ref''],
             merchant = extract_field groups (pfields pattern) [''merchant''],
             reference = extract_field groups (pfields pattern) [''reference''],
             confidence = pconfidence pattern, raw_message = raw, channel = ''sms'',
             meta = [(''parser'', MStr ''regex_pattern''),
                     (''pattern_matched'', MList (pfields pattern))]\<rparr>)))"

fun first_match :: "pattern_info list \<Rightarrow> string \<Rightarrow> (pattern_info \<times> string list) option" where
  \<comment> \<open>the \<open>for\<close> loop of \<open>parse_message\<close>: the first pattern, in list order, that matches\<close>
  "first_match [] s = None"
| "first_match (p # ps) s =
     (case rsearch True (regex p) s of
        Some groups \<Rightarrow> Some (p, groups)
      | None \<Rightarrow> first_match ps s)"

definition parse_message :: "datetime \<Rightarrow> string \<Rightarrow> py_error + ParsedTransaction option" where
  \<comment> \<open>\<open>SMSParser.parse_message\<close>: \<open>Inl\<close> is a raised exception, \<open>Inr None\<close> is \<open>None\<close>\<close>
  "parse_message now sms_text0 =
     (let sms_text = strip sms_text0 in
      case first_match patterns sms_text of
        Some (pattern, groups) \<Rightarrow>
          (case extract_transaction_data now groups pattern sms_text of
             Inl e \<Rightarrow> Inl e
           | Inr t \<Rightarrow> Inr (Some t))
      | None \<Rightarrow>
          (case rsearch False generic_regex sms_text of
             Some groups \<Rightarrow>
               (case item_at groups 0 of Inl e \<Rightarrow> Inl e
                | Inr g1 \<Rightarrow>
               (case py_float (replace_comma g1) of Inl e \<Rightarrow> Inl e
                | Inr amt \<Rightarrow>
                  Inr (Some \<lparr>amount = amt, currency = ''INR'', transaction_type = ''other'',
                             timestamp = now, account_ref = None, merchant = None,
                             reference = None, confidence = 0.3, raw_message = sms_text,
                             channel = ''sms'',
                             meta = [(''parser'', MStr ''generic_fallback'')]\<rparr>)))
           | None \<Rightarrow> Inr None))"

section \<open>classifier.py\<close>

record ClassificationResult =
  category :: string
  cls_confidence :: real
  subcategories :: "string list"
  features_used :: "string list"

datatype pyval = VFloat real | VStr string | VBool bool | VInt int

text \<open>
  A \<open>dict\<close> keeps its keys in insertion order, and \<open>list(features.keys())\<close> returns them
  in that order, so the feature dictionary is an association list.
\<close>

type_synonym features = "(string \<times> pyval) list"

fun dict_set :: "features \<Rightarrow> string \<Rightarrow> pyval \<Rightarrow> features" where
  "dict_set [] k v = [(k, v)]"
| "dict_set ((k', v') # d) k v = (if k' = k then (k, v) # d else (k', v') # dict_set d k v)"

fun dict_update :: "features \<Rightarrow> features \<Rightarrow> features" where
  \<comment> \<open>\<open>d.update(e)\<close>\<close>
  "dict_update d [] = d"
| "dict_update d ((k, v) # e) = dict_update (dict_set d k v) e"

definition get_str :: "features \<Rightarrow> string \<Rightarrow> string \<Rightarrow> string" where
  \<comment> \<open>\<open>features.get(k, default)\<close> where the stored value is a \<open>str\<close>, as it is for the
      keys \<open>merchant\<close>, \<open>transaction_type\<close> and \<open>raw_message\<close> of \<open>_extract_features\<close>\<close>
  "get_str f k dflt = (case map_of f k of Some (VStr s) \<Rightarrow> s | _ \<Rightarrow> dflt)"

definition get_num :: "features \<Rightarrow> string \<Rightarrow> real \<Rightarrow> real" where
  \<comment> \<open>\<open>features.get(k, default)\<close> where the stored value is a number\<close>
  "get_num f k dflt =
     (case map_of f k of Some (VFloat x) \<Rightarrow> x | Some (VInt i) \<Rightarrow> real_of_int i | _ \<Rightarrow> dflt)"

definition any_in :: "string list \<Rightarrow> string \<Rightarrow> bool" where
  \<comment> \<open>\<open>any(k in s for k in keywords)\<close>\<close>
  "any_in keywords s = list_ex (\<lambda>k. str_in k s) keywords"

record TFLiteInterface =
  model_path :: "string option"
  model :: "unit option"
  is_model_loaded :: bool
  tf_categories :: "string list"

definition TFLiteInterface_init :: "string option \<Rightarrow> TFLiteInterface" where
  \<comment> \<open>\<open>TFLiteInterface.__init__\<close>; \<open>_load_model\<close> only prints and leaves the fields as they are\<close>
  "TFLiteInterface_init path =
     \<lparr>model_path = path, model = None, is_model_loaded = False,
      tf_categories =
        [''shopping'', ''utilities'', ''food_dining'', ''transportation'',
         ''entertainment'', ''healthcare'', ''education'', ''bills'',
         ''transfer'', ''investment'', ''fee'', ''cashback'', ''other'']\<rparr>"

definition tflite_predict :: "features \<Rightarrow> string \<times> real" where
  "tflite_predict f = (''other'', 0.5)"

definition rule_based_predict :: "features \<Rightarrow> string \<times> real" where
  \<comment> \<open>\<open>_rule_based_predict\<close>\<close>
  "rule_based_predict f =
     (let merchant = lower (get_str f ''merchant'' []);
          txn_type = lower (get_str f ''transaction_type'' []);
          amount = get_num f ''amount'' 0
      in
      if any_in [''amazon'', ''flipkart'', ''myntra'', ''mall''] merchant
        then (''shopping'', 0.9)
      else if any_in [''mseb'', ''electricity'', ''gas'', ''water''] merchant
        then (''utilities'', 0.95)
      else if any_in [''netflix'', ''spotify'', ''prime'', ''cinema''] merchant
        then (''entertainment'', 0.9)
      else if txn_type = ''bill''
        then (''bills'', 0.85)
      else if str_in ''upi'' (lower (get_str f ''raw_message'' []))
              \<or> str_in ''neft'' (lower (get_str f ''raw_message'' []))
        then (''transfer'', 0.8)
      else if amount < 100 \<and> str_in ''credit card'' (lower (get_str f ''raw_message'' []))
        then (''fee'', 0.75)
      else if txn_type = ''credit'' \<and> str_in ''interest'' (lower (get_str f ''raw_message'' []))
        then (''cashback'', 0.9)
      else (''other'', 0.3))"

definition predict :: "TFLiteInterface \<Rightarrow> features \<Rightarrow> string \<times> real" where
  "predict iface f =
     (if is_model_loaded iface \<and> model iface \<noteq> None then tflite_predict f
      else rule_based_predict f)"

definition or_empty :: "string option \<Rightarrow> string" where
  \<comment> \<open>\<open>x or ''\<close> for an optional \<open>str\<close>\<close>
  "or_empty x = (case x of None \<Rightarrow> [] | Some s \<Rightarrow> s)"

definition extract_merchant_features :: "ParsedTransaction \<Rightarrow> features" where
  "extract_merchant_features t =
     (let m = lower (or_empty (merchant t)) in
      [(''is_ecommerce'', VBool (any_in [''amazon'', ''flipkart'', ''myntra''] m)),
       (''is_streaming'', VBool (any_in [''netflix'', ''spotify'', ''prime''] m)),
       (''is_utility'', VBool (any_in [''mseb'', ''electricity'', ''gas''] m))])"

definition get_amount_bucket :: "real \<Rightarrow> string" where
  "get_amount_bucket a =
     (if a < 100 then ''micro'' else if a < 1000 then ''small''
      else if a < 5000 then ''medium'' else ''large'')"

definition get_time_bucket :: "int \<Rightarrow> string" where
  "get_time_bucket h =
     (if 6 \<le> h \<and> h < 12 then ''morning'' else if 12 \<le> h \<and> h < 17 then ''afternoon''
      else if 17 \<le> h \<and> h < 21 then ''evening'' else ''night'')"

definition extract_amount_features :: "ParsedTransaction \<Rightarrow> features" where
  "extract_amount_features t =
     (let a = amount t in
      [(''is_micro_transaction'', VBool (a < 10)),
       (''is_small_transaction'', VBool (10 \<le> a \<and> a < 500)),
       (''is_medium_transaction'', VBool (500 \<le> a \<and> a < 5000)),
       (''is_large_transaction'', VBool (a \<ge> 5000)),
       (''amount_bucket'', VStr (get_amount_bucket a))])"

definition extract_time_features :: "ParsedTransaction \<Rightarrow> features" where
  "extract_time_features t =
     (let h = hour (timestamp t); wd = weekday (timestamp t) in
      [(''is_business_hours'', VBool (9 \<le> h \<and> h \<le> 17)),
       (''is_weekend'', VBool (wd \<ge> 5)),
       (''time_bucket'', VStr (get_time_bucket h))])"

definition extract_channel_features :: "ParsedTransaction \<Rightarrow> features" where
  "extract_channel_features t =
     [(''is_sms'', VBool (channel t = ''sms'')),
      (''is_email'', VBool (channel t = ''email'')),
      (''message_length'', VInt (int (length (raw_message t))))]"

definition feature_extractors :: "(string \<times> (ParsedTransaction \<Rightarrow> features)) list" where
  "feature_extractors =
     [(''merchant_keywords'', extract_merchant_features),
      (''amount_patterns'', extract_amount_features),
      (''time_patterns'', extract_time_features),
      (''channel_info'', extract_channel_features)]"

definition extract_features :: "ParsedTransaction \<Rightarrow> features" where
  \<comment> \<open>\<open>_extract_features\<close>\<close>
  "extract_features t =
     foldl (\<lambda>f (name, extractor). dict_update f (extractor t))
       [(''amount'', VFloat (amount t)),
        (''transaction_type'', VStr (transaction_type t)),
        (''merchant'', VStr (or_empty (merchant t))),
        (''channel'', VStr (channel t)),
        (''raw_message'', VStr (raw_message t)),
        (''has_account_ref'', VBool (account_ref t \<noteq> None)),
        (''has_reference'', VBool (reference t \<noteq> None))]
       feature_extractors"

definition generate_subcategories :: "ParsedTransaction \<Rightarrow> string \<Rightarrow> string list" where
  \<comment> \<open>\<open>_generate_subcategories\<close>\<close>
  "generate_subcategories t primary_category =
     (if primary_category = ''shopping'' then
        (if amount t > 2000 then [''high_value_purchase''] else [])
        @ (if str_in ''amazon'' (lower (or_empty (merchant t))) then [''online_marketplace'']
           else [])
      else if primary_category = ''utilities'' then
        (if amount t > 1000 then [''high_utility_bill''] else [])
      else if primary_category = ''bills'' then
        [''recurring_payment'']
        @ (if str_in ''due'' (lower (raw_message t)) then [''payment_reminder''] else [])
      else [])"

record TransactionClassifier =
  tflite_interface :: TFLiteInterface

definition TransactionClassifier_init :: "string option \<Rightarrow> TransactionClassifier" where
  "TransactionClassifier_init tflite_model_path =
     \<lparr>tflite_interface = TFLiteInterface_init tflite_model_path\<rparr>"

definition classify_transaction :: "TransactionClassifier \<Rightarrow> ParsedTransaction \<Rightarrow> ClassificationResult"
  where
  "classify_transaction clf t =
     (let f = extract_features t;
          (cat, conf) = predict (tflite_interface clf) f;
          subs = generate_subcategories t cat
      in \<lparr>category = cat, cls_confidence = conf, subcategories = subs,
          features_used = map fst f\<rparr>)"

section \<open>goal_impact.py\<close>

datatype GoalType = SAVINGS | BUDGET | BILL_PAYMENT | SPENDING_LIMIT | INVESTMENT

record Goal =
  goal_id :: string
  goal_type :: GoalType
  name :: string
  target_amount :: real
  current_amount :: real
  deadline :: "datetime option"
  categories :: "string list"
  is_active :: bool

text \<open>
  A message is an f-string. It is kept as the list of its pieces: literal text, the
  symbols outside the modelled character range, and the formatted numbers
  (\<open>{x:.2f}\<close> and \<open>{x:.0%}\<close>) with the number that is formatted. The empty list is the
  empty string, and every piece renders to at least one character.
\<close>

datatype piece = Txt string | Rupee | WarningSign | CheckMark | Fixed2 real | Percent0 real

record GoalImpact =
  gi_goal_id :: string
  goal_name :: string
  impact_score :: real
  message :: "piece list"
  impact_amount :: real
  new_progress :: real
  is_goal_achieved :: bool
  is_goal_at_risk :: "bool option"

text \<open>
  \<open>is_goal_at_risk\<close> holds the value of \<open>goal.deadline and ... and ...\<close>, which is
  \<open>None\<close> for a goal without deadline and a \<open>bool\<close> otherwise.
\<close>

definition initialize_demo_goals :: "(string \<times> Goal) list" where
  \<comment> \<open>\<open>_initialize_demo_goals\<close>: the registry, in insertion order\<close>
  "initialize_demo_goals =
     [(''demo-savings'',
       \<lparr>goal_id = ''demo-savings'', goal_type = SAVINGS, name = ''Emergency Fund Savings'',
        target_amount = 50000, current_amount = 15000, deadline = Some (date 2025 12 31),
        categories = [''credit'', ''cashback'', ''investment''], is_active = True\<rparr>),
      (''cc-bill'',
       \<lparr>goal_id = ''cc-bill'', goal_type = BILL_PAYMENT, name = ''Credit Card Bill Payment'',
        target_amount = 12450, current_amount = 0, deadline = Some (date 2025 9 30),
        categories = [''bill'', ''credit''], is_active = True\<rparr>),
      (''monthly-budget'',
       \<lparr>goal_id = ''monthly-budget'', goal_type = SPENDING_LIMIT,
        name = ''Monthly Spending Budget'',
        target_amount = 25000, current_amount = 8000, deadline = Some (date 2025 9 30),
        categories = [''shopping'', ''utilities'', ''entertainment'', ''food_dining''],
        is_active = True\<rparr>)]"

definition is_transaction_relevant :: "ParsedTransaction \<Rightarrow> ClassificationResult \<Rightarrow> Goal \<Rightarrow> bool"
  where
  \<comment> \<open>\<open>_is_transaction_relevant\<close>\<close>
  "is_transaction_relevant t c g =
     (if transaction_type t \<in> set (categories g) then True
      else if category c \<in> set (categories g) then True
      else if goal_type g = BILL_PAYMENT then
        (if str_in ''reminder'' (lower (raw_message t)) then True
         else if goal_id g = ''cc-bill'' \<and> str_in ''credit card'' (lower (raw_message t))
           then True
         else False)
      else False)"

definition at_risk_within :: "datetime \<Rightarrow> datetime option \<Rightarrow> (int \<Rightarrow> bool) \<Rightarrow> bool \<Rightarrow> bool option"
  where
  \<comment> \<open>\<open>goal.deadline and days_ok((goal.deadline - datetime.now()).days) and low\<close>\<close>
  "at_risk_within now dl days_ok low =
     (case dl of None \<Rightarrow> None | Some d \<Rightarrow> Some (days_ok (delta_days d now) \<and> low))"

definition calculate_savings_impact ::
  "datetime \<Rightarrow> ParsedTransaction \<Rightarrow> ClassificationResult \<Rightarrow> Goal \<Rightarrow> py_error + GoalImpact" where
  \<comment> \<open>\<open>_calculate_savings_impact\<close>; the first argument is what \<open>datetime.now()\<close> returns\<close>
  "calculate_savings_impact now t c g =
     (let (amt, score, msg) =
        (if transaction_type t = ''credit'' then
           (amount t, min 0.8 (amount t / 5000),
            [Txt ''Great! '', Rupee, Fixed2 (amount t), Txt '' added to your savings progress''])
         else if transaction_type t = ''debit'' then
           (- amount t, - min 0.6 (amount t / 5000),
            if category c = ''shopping'' \<and> amount t > 1000
            then [Txt ''High shopping expense of '', Rupee, Fixed2 (amount t),
                  Txt '' impacts your savings goal'']
            else [Rupee, Fixed2 (amount t),
                  Txt '' spent - consider if this aligns with your savings target''])
         else (0, 0, []))
      in
      if target_amount g = 0 then Inl ZeroDivisionError
      else
        let new_amount = current_amount g + amt;
            progress = min 1 (max 0 (new_amount / target_amount g))
        in Inr \<lparr>gi_goal_id = goal_id g, goal_name = name g, impact_score = score,
                message = msg, impact_amount = amt, new_progress = progress,
                is_goal_achieved = (progress \<ge> 1),
                is_goal_at_risk =
                  at_risk_within now (deadline g) (\<lambda>d. d < 30) (progress < 0.5)\<rparr>)"

definition calculate_bill_impact ::
  "datetime \<Rightarrow> ParsedTransaction \<Rightarrow> ClassificationResult \<Rightarrow> Goal \<Rightarrow> py_error + GoalImpact" where
  \<comment> \<open>\<open>_calculate_bill_impact\<close>\<close>
  "calculate_bill_impact now t c g =
     (let (amt, score, msg) =
        (if str_in ''reminder'' (lower (raw_message t)) then
           (amount t, - 0.9,
            [WarningSign, Txt '' Bill payment reminder: '', Rupee, Fixed2 (amount t),
             Txt '' due soon!''])
         else if transaction_type t = ''credit'' \<and> goal_id g = ''cc-bill'' then
           (- amount t, 0.8,
            [CheckMark, Txt '' '', Rupee, Fixed2 (amount t),
             Txt '' payment towards your credit card bill''])
         else (0, 0, []))
      in
      if target_amount g = 0 then Inl ZeroDivisionError
      else
        let remaining_amount = max 0 (target_amount g + amt);
            progress = 1 - remaining_amount / target_amount g;
            is_at_risk = at_risk_within now (deadline g) (\<lambda>d. d \<le> 5) (progress < 0.8)
        in Inr \<lparr>gi_goal_id = goal_id g, goal_name = name g, impact_score = score,
                message = (if is_at_risk = Some True
                           then msg @ [Txt '' - Due date is approaching!''] else msg),
                impact_amount = amt, new_progress = progress,
                is_goal_achieved = (progress \<ge> 1),
                is_goal_at_risk = is_at_risk\<rparr>)"

definition calculate_budget_impact ::
  "ParsedTransaction \<Rightarrow> ClassificationResult \<Rightarrow> Goal \<Rightarrow> py_error + GoalImpact option" where
  \<comment> \<open>\<open>_calculate_budget_impact\<close>\<close>
  "calculate_budget_impact t c g =
     (if transaction_type t \<noteq> ''debit'' then Inr None
      else if target_amount g = 0 then Inl ZeroDivisionError
      else
        let amt = amount t;
            spent_ratio = (current_amount g + amt) / target_amount g;
            (score, msg) =
              (if spent_ratio > 1 then
                 (- 1, [WarningSign, Txt '' Budget exceeded! '', Rupee, Fixed2 (amount t),
                        Txt '' spent on '', Txt (category c)])
               else if spent_ratio > 0.8 then
                 (- 0.7, [WarningSign, Txt '' '', Rupee, Fixed2 (amount t), Txt '' spent on '',
                          Txt (category c), Txt ''. You're at '', Percent0 spent_ratio,
                          Txt '' of monthly budget''])
               else
                 (- 0.3, [Rupee, Fixed2 (amount t), Txt '' spent on '', Txt (category c),
                          Txt ''. '', Percent0 (1 - spent_ratio), Txt '' of budget remaining'']))
        in Inr (Some \<lparr>gi_goal_id = goal_id g, goal_name = name g, impact_score = score,
                      message = msg, impact_amount = amt, new_progress = min 1 spent_ratio,
                      is_goal_achieved = False,
                      is_goal_at_risk = Some (spent_ratio > 0.9)\<rparr>))"

definition calculate_single_goal_impact ::
  "datetime \<Rightarrow> ParsedTransaction \<Rightarrow> ClassificationResult \<Rightarrow> Goal \<Rightarrow> py_error + GoalImpact option"
  where
  \<comment> \<open>\<open>_calculate_single_goal_impact\<close>\<close>
  "calculate_single_goal_impact now t c g =
     (if \<not> is_transaction_relevant t c g then Inr None
      else if goal_type g = SAVINGS then map_sum id Some (calculate_savings_impact now t c g)
      else if goal_type g = BILL_PAYMENT then map_sum id Some (calculate_bill_impact now t c g)
      else if goal_type g = SPENDING_LIMIT then calculate_budget_impact t c g
      else Inr None)"

fun impacts_loop ::
  "datetime \<Rightarrow> ParsedTransaction \<Rightarrow> ClassificationResult \<Rightarrow> (string \<times> Goal) list
   \<Rightarrow> GoalImpact list \<Rightarrow> py_error + GoalImpact list" where
  \<comment> \<open>the \<open>for\<close> loop of \<open>calculate_transaction_impact\<close>, with the list built so far\<close>
  "impacts_loop now t c [] impacts = Inr impacts"
| "impacts_loop now t c ((gid, g) # goals) impacts =
     (if \<not> is_active g then impacts_loop now t c goals impacts
      else (case calculate_single_goal_impact now t c g of
              Inl e \<Rightarrow> Inl e
            | Inr None \<Rightarrow> impacts_loop now t c goals impacts
            | Inr (Some impact) \<Rightarrow> impacts_loop now t c goals (impacts @ [impact])))"

definition calculate_transaction_impact ::
  "(string \<times> Goal) list \<Rightarrow> datetime \<Rightarrow> ParsedTransaction \<Rightarrow> ClassificationResult
   \<Rightarrow> py_error + GoalImpact list" where
  \<comment> \<open>\<open>calculate_transaction_impact\<close>; the first argument is \<open>self.demo_goals\<close>\<close>
  "calculate_transaction_impact demo_goals now t c = impacts_loop now t c demo_goals []"

section \<open>Sample messages and the values the pipeline derives from them\<close>

definition amazon_sms :: string where
  "amazon_sms = ''INR 1,249.00 spent on HDFC Credit Card XX1234 at AMAZON on 23-09-2025 1435.''"

definition netflix_sms :: string where
  "netflix_sms = ''INR 799.00 paid to Netflix via UPI Ref UPI123XYZ on 24-09-2025 0910.''"

definition neft_sms :: string where
  "neft_sms = ''INR 4,999.00 credited to AC 9876 ICICI via NEFT on 23-09-2025 1805. Ref ABCD123.''"

definition reminder_sms :: string where
  "reminder_sms = ''Reminder: payment of INR 12,450 due on 30-09-2025 for HDFC XX1234''"

definition no_digit_card_sms :: string where
  "no_digit_card_sms = ''INR , spent on HDFC Credit Card XX1234 at AMAZON on 23-09-2025 1435.''"

definition amazon_fact :: ParsedTransaction where
  "amazon_fact =
     \<lparr>amount = 1249, currency = ''INR'', transaction_type = ''debit'',
      timestamp = \<lparr>year = 2025, month = 9, day = 23, hour = 14, minute = 35, second = 0,
                   microsecond = 0\<rparr>,
      account_ref = Some ''XX1234'', merchant = Some ''AMAZON'', reference = None,
      confidence = 0.95, raw_message = amazon_sms, channel = ''sms'',
      meta = [(''parser'', MStr ''regex_pattern''),
              (''pattern_matched'',
               MList [''amount'', ''account_type'', ''account_ref'', ''merchant'', ''date'',
                      ''time''])]\<rparr>"

definition netflix_fact :: ParsedTransaction where
  "netflix_fact =
     \<lparr>amount = 799, currency = ''INR'', transaction_type = ''debit'',
      timestamp = \<lparr>year = 2025, month = 9, day = 24, hour = 9, minute = 10, second = 0,
                   microsecond = 0\<rparr>,
      account_ref = None, merchant = Some ''Netflix'', reference = Some ''UPI123XYZ'',
      confidence = 0.9, raw_message = netflix_sms, channel = ''sms'',
      meta = [(''parser'', MStr ''regex_pattern''),
              (''pattern_matched'',
               MList [''amount'', ''merchant'', ''reference'', ''date'', ''time''])]\<rparr>"

definition neft_fact :: ParsedTransaction where
  "neft_fact =
     \<lparr>amount = 4999, currency = ''INR'', transaction_type = ''credit'',
      timestamp = \<lparr>year = 2025, month = 9, day = 23, hour = 18, minute = 5, second = 0,
                   microsecond = 0\<rparr>,
      account_ref = Some ''9876'', merchant = None, reference = Some ''ABCD123'',
      confidence = 0.95, raw_message = neft_sms, channel = ''sms'',
      meta = [(''parser'', MStr ''regex_pattern''),
              (''pattern_matched'',
               MList [''amount'', ''account_ref'', ''bank'', ''date'', ''time'',
                      ''reference''])]\<rparr>"

definition reminder_fact :: "datetime \<Rightarrow> ParsedTransaction" where
  \<comment> \<open>the reminder pattern has no time field, so the timestamp is the clock reading\<close>
  "reminder_fact now =
     \<lparr>amount = 12450, currency = ''INR'', transaction_type = ''bill'', timestamp = now,
      account_ref = Some ''XX1234'', merchant = None, reference = None,
      confidence = 0.85, raw_message = reminder_sms, channel = ''sms'',
      meta = [(''parser'', MStr ''regex_pattern''),
              (''pattern_matched'', MList [''amount'', ''due_date'', ''bank'', ''account_ref''])]\<rparr>"

definition feature_names :: "string list" where
  "feature_names =
     [''amount'', ''transaction_type'', ''merchant'', ''channel'', ''raw_message'',
      ''has_account_ref'', ''has_reference'', ''is_ecommerce'', ''is_streaming'',
      ''is_utility'', ''is_micro_transaction'', ''is_small_transaction'',
      ''is_medium_transaction'', ''is_large_transaction'', ''amount_bucket'',
      ''is_business_hours'', ''is_weekend'', ''time_bucket'', ''is_sms'', ''is_email'',
      ''message_length'']"

definition amazon_cls :: ClassificationResult where
  "amazon_cls =
     \<lparr>category = ''shopping'', cls_confidence = 0.9, subcategories = [''online_marketplace''],
      features_used = feature_names\<rparr>"

definition neft_cls :: ClassificationResult where
  "neft_cls =
     \<lparr>category = ''transfer'', cls_confidence = 0.8, subcategories = [],
      features_used = feature_names\<rparr>"

definition reminder_cls :: ClassificationResult where
  "reminder_cls =
     \<lparr>category = ''bills'', cls_confidence = 0.85,
      subcategories = [''recurring_payment'', ''payment_reminder''],
      features_used = feature_names\<rparr>"

definition savings_goal :: Goal where
  "savings_goal = snd (initialize_demo_goals ! 0)"

definition cc_bill_goal :: Goal where
  "cc_bill_goal = snd (initialize_demo_goals ! 1)"

definition budget_goal :: Goal where
  "budget_goal = snd (initialize_demo_goals ! 2)"

definition sep_01 :: datetime where
  "sep_01 = date 2025 9 1"

definition sep_28 :: datetime where
  "sep_28 = date 2025 9 28"

definition other_fact :: ParsedTransaction where
  \<comment> \<open>a fallback fact, as \<open>parse_message\<close> builds it for a text no pattern matches\<close>
  "other_fact =
     \<lparr>amount = 500, currency = ''INR'', transaction_type = ''other'', timestamp = sep_01,
      account_ref = None, merchant = None, reference = None, confidence = 0.3,
      raw_message = ''SIP of INR 500 booked'', channel = ''sms'',
      meta = [(''parser'', MStr ''generic_fallback'')]\<rparr>"

definition investment_cls :: ClassificationResult where
  \<comment> \<open>a classification with a category of the label set that no rule produces\<close>
  "investment_cls =
     \<lparr>category = ''investment'', cls_confidence = 0.5, subcategories = [],
      features_used = feature_names\<rparr>"

section \<open>The specification's reading of the predictor and of clock independence\<close>

text \<open>
  The specification describes the rule-based predictor as an ordered decision list:
  conditions with a category and a fixed confidence each, the first condition that holds
  decides. \<open>spec_decision_list\<close> is that list, \<open>first_rule\<close> its evaluation;
  \<open>rule_based_predict\<close> above is the \<open>if\<close> chain of the source.
\<close>

definition spec_merchant :: "features \<Rightarrow> string" where
  "spec_merchant f = lower (get_str f ''merchant'' [])"

definition spec_kind :: "features \<Rightarrow> string" where
  "spec_kind f = lower (get_str f ''transaction_type'' [])"

definition spec_raw :: "features \<Rightarrow> string" where
  "spec_raw f = lower (get_str f ''raw_message'' [])"

definition spec_decision_list :: "((features \<Rightarrow> bool) \<times> string \<times> real) list" where
  "spec_decision_list =
     [(\<lambda>f. any_in [''amazon'', ''flipkart'', ''myntra'', ''mall''] (spec_merchant f),
       ''shopping'', 0.9),
      (\<lambda>f. any_in [''mseb'', ''electricity'', ''gas'', ''water''] (spec_merchant f),
       ''utilities'', 0.95),
      (\<lambda>f. any_in [''netflix'', ''spotify'', ''prime'', ''cinema''] (spec_merchant f),
       ''entertainment'', 0.9),
      (\<lambda>f. spec_kind f = ''bill'', ''bills'', 0.85),
      (\<lambda>f. str_in ''upi'' (spec_raw f) \<or> str_in ''neft'' (spec_raw f), ''transfer'', 0.8),
      (\<lambda>f. get_num f ''amount'' 0 < 100 \<and> str_in ''credit card'' (spec_raw f), ''fee'', 0.75),
      (\<lambda>f. spec_kind f = ''credit'' \<and> str_in ''interest'' (spec_raw f), ''cashback'', 0.9),
      (\<lambda>f. True, ''other'', 0.3)]"

fun first_rule :: "((features \<Rightarrow> bool) \<times> string \<times> real) list \<Rightarrow> features \<Rightarrow> (string \<times> real) option"
  where
  "first_rule [] f = None"
| "first_rule ((cond, res) # rules) f = (if cond f then Some res else first_rule rules f)"

definition due_suffix :: piece where
  "due_suffix = Txt '' - Due date is approaching!''"

definition without_due_suffix :: "piece list \<Rightarrow> piece list" where
  "without_due_suffix msg = (if msg \<noteq> [] \<and> last msg = due_suffix then butlast msg else msg)"

definition clock_free :: "GoalImpact \<Rightarrow> string \<times> string \<times> real \<times> real \<times> real \<times> bool \<times> piece list"
  where
  \<comment> \<open>what a goal impact holds besides its at-risk flag and the due-date warning\<close>
  "clock_free gi =
     (gi_goal_id gi, goal_name gi, impact_score gi, impact_amount gi, new_progress gi,
      is_goal_achieved gi, without_due_suffix (message gi))"

section \<open>Evaluation lemmas\<close>

text \<open>
  Facts that let the simplifier run the model on concrete messages, and the values the
  pipeline computes for the sample messages.
\<close>

lemma lower_char_Char:
  "lower_char (Char b0 b1 b2 b3 b4 b5 b6 b7) =
     (if is_ascii_upper (Char b0 b1 b2 b3 b4 b5 b6 b7)
         \<or> (192 \<le> ord (Char b0 b1 b2 b3 b4 b5 b6 b7) \<and> ord (Char b0 b1 b2 b3 b4 b5 b6 b7) \<le> 222
            \<and> ord (Char b0 b1 b2 b3 b4 b5 b6 b7) \<noteq> 215)
      then Char b0 b1 b2 b3 b4 True b6 b7 else Char b0 b1 b2 b3 b4 b5 b6 b7)"
  by (cases b0; cases b1; cases b2; cases b3; cases b4; cases b5; cases b6; cases b7)
     (simp_all add: lower_char_def is_ascii_upper_def ord_def char_of_def bit_iff_odd)

lemmas char_ev = is_ascii_upper_def is_ascii_lower_def is_digit_def is_word_def is_space_def
  ord_def lower_char_Char lower_def

lemmas regex_ev = lit_def push_def amount_group_def date_group_def time_group_def
  card_regex_def neft_regex_def upi_regex_def reminder_regex_def generic_regex_def patterns_def

lemmas parse_ev = parse_message_def strip_def extract_transaction_data_def item_at_def
  py_float_def py_int_def replace_comma_def digits_value_def parse_timestamp_def
  compose_timestamp_def mk_datetime_def days_in_month_def is_leap_def

lemma parse_message_amazon: "parse_message now amazon_sms = Inr (Some amazon_fact)"
  by (simp add: amazon_sms_def amazon_fact_def parse_ev regex_ev char_ev)

lemma parse_message_netflix: "parse_message now netflix_sms = Inr (Some netflix_fact)"
  by (simp add: netflix_sms_def netflix_fact_def parse_ev regex_ev char_ev)

lemma parse_message_neft: "parse_message now neft_sms = Inr (Some neft_fact)"
  by (simp add: neft_sms_def neft_fact_def parse_ev regex_ev char_ev)

lemma parse_message_reminder: "parse_message now reminder_sms = Inr (Some (reminder_fact now))"
  by (simp add: reminder_sms_def reminder_fact_def parse_ev regex_ev char_ev)

lemmas classify_ev = classify_transaction_def TransactionClassifier_init_def
  TFLiteInterface_init_def predict_def rule_based_predict_def extract_features_def
  feature_extractors_def extract_merchant_features_def extract_amount_features_def
  extract_time_features_def extract_channel_features_def get_str_def get_num_def any_in_def
  or_empty_def generate_subcategories_def feature_names_def Let_def

lemma classify_amazon:
  "classify_transaction (TransactionClassifier_init p) amazon_fact = amazon_cls"
  by (simp add: amazon_fact_def amazon_sms_def amazon_cls_def classify_ev char_ev)

lemma classify_neft:
  "classify_transaction (TransactionClassifier_init p) neft_fact = neft_cls"
  by (simp add: neft_fact_def neft_sms_def neft_cls_def classify_ev char_ev)

lemma classify_reminder:
  "classify_transaction (TransactionClassifier_init p) (reminder_fact now) = reminder_cls"
  by (simp add: reminder_fact_def reminder_sms_def reminder_cls_def classify_ev char_ev)

lemma features_used_names: "map fst (extract_features t) = feature_names"
  by (simp add: extract_features_def feature_extractors_def extract_merchant_features_def
      extract_amount_features_def extract_time_features_def extract_channel_features_def
      feature_names_def Let_def)

lemma predict_init: "predict (tflite_interface (TransactionClassifier_init p)) f = rule_based_predict f"
  by (simp add: predict_def TransactionClassifier_init_def TFLiteInterface_init_def)

lemma rule_based_predict_range:
  "fst (rule_based_predict f) \<in> set [''shopping'', ''utilities'', ''entertainment'', ''bills'',
       ''transfer'', ''fee'', ''cashback'', ''other'']
   \<and> 0.3 \<le> snd (rule_based_predict f) \<and> snd (rule_based_predict f) \<le> 0.95
   \<and> (fst (rule_based_predict f) = ''other'' \<longleftrightarrow> snd (rule_based_predict f) = 0.3)"
  by (simp add: rule_based_predict_def Let_def)

lemmas goal_ev = initialize_demo_goals_def savings_goal_def cc_bill_goal_def budget_goal_def
  date_def sep_01_def sep_28_def

lemmas impact_ev = calculate_single_goal_impact_def is_transaction_relevant_def
  calculate_savings_impact_def calculate_bill_impact_def calculate_budget_impact_def
  at_risk_within_def delta_days_def to_microseconds_def toordinal_def days_before_year_def
  days_before_month_def is_leap_def Let_def

section \<open>The cases of \<open>parse_message\<close>\<close>

text \<open>
  A match returns one group per capture group of its pattern, so the positional reads of
  \<open>_extract_transaction_data\<close> and \<open>_parse_timestamp\<close> stay in range. What
  \<open>parse_message\<close> returns is then decided by the first matching pattern and by
  \<open>float\<close> on the amount group: the only exception it can raise is the ValueError of
  \<open>float\<close>.
\<close>

lemma py_float_error: "py_float x = Inl e \<Longrightarrow> e = ValueError"
  by (auto simp add: py_float_def Let_def split: list.splits if_splits)

lemma rmatch_groups_length:
  "rmatch ic items s gs cur = Some g \<Longrightarrow> length g = length gs + count_list items GClose"
proof (induction ic items s gs cur arbitrary: g rule: rmatch.induct)
  case (1 ic s gs cur)
  then show ?case by simp
next
  case (2 ic r s gs cur)
  then show ?case by simp
next
  case (3 ic r s gs cur)
  then show ?case by simp
next
  case (4 ic a r s gs cur)
  from "4.prems" obtain c cs where s: "s = c # cs" "cmatch ic a c"
    and m: "rmatch ic r cs gs (push c cur) = Some g"
    by (cases s) (simp_all split: if_splits)
  from "4.IH" [OF s m] show ?case by simp
next
  case (5 ic a r s gs cur)
  let ?inner = "case s of [] \<Rightarrow> None
                | c # cs \<Rightarrow> if cmatch ic a c then rmatch ic r cs gs (push c cur) else None"
  have unf: "rmatch ic (Atom a Opt # r) s gs cur =
      (case ?inner of Some g \<Rightarrow> Some g | None \<Rightarrow> rmatch ic r s gs cur)"
    by (rule rmatch.simps)
  from "5.prems" have eq: "(case ?inner of Some g \<Rightarrow> Some g | None \<Rightarrow> rmatch ic r s gs cur) = Some g"
    unfolding unf .
  show ?case
  proof (cases ?inner)
    case None
    with eq have "rmatch ic r s gs cur = Some g" by (simp only: option.case)
    from "5.IH"(2) [OF None this] show ?thesis by simp
  next
    case (Some g')
    with eq have g': "g' = g" by (simp only: option.case option.inject)
    from Some obtain c cs where s: "s = c # cs" "cmatch ic a c"
      and m: "rmatch ic r cs gs (push c cur) = Some g'"
      by (cases s) (simp_all split: if_splits)
    from "5.IH"(1) [OF s m] g' show ?thesis by simp
  qed
next
  case (6 ic a r s gs cur)
  let ?inner = "case s of [] \<Rightarrow> None
                | c # cs \<Rightarrow> if cmatch ic a c
                            then rmatch ic (Atom a Star # r) cs gs (push c cur) else None"
  have unf: "rmatch ic (Atom a Star # r) s gs cur =
      (case ?inner of Some g \<Rightarrow> Some g | None \<Rightarrow> rmatch ic r s gs cur)"
    by (rule rmatch.simps)
  from "6.prems" have eq: "(case ?inner of Some g \<Rightarrow> Some g | None \<Rightarrow> rmatch ic r s gs cur) = Some g"
    unfolding unf .
  show ?case
  proof (cases ?inner)
    case None
    with eq have "rmatch ic r s gs cur = Some g" by (simp only: option.case)
    from "6.IH"(2) [OF None this] show ?thesis by simp
  next
    case (Some g')
    with eq have g': "g' = g" by (simp only: option.case option.inject)
    from Some obtain c cs where s: "s = c # cs" "cmatch ic a c"
      and m: "rmatch ic (Atom a Star # r) cs gs (push c cur) = Some g'"
      by (cases s) (simp_all del: rmatch.simps split: if_splits)
    from "6.IH"(1) [OF s m] g' show ?thesis by simp
  qed
next
  case (7 ic a r s gs cur)
  have unf: "rmatch ic (Atom a Plus # r) s gs cur =
      (case s of [] \<Rightarrow> None
       | c # cs \<Rightarrow> if cmatch ic a c then rmatch ic (Atom a Star # r) cs gs (push c cur)
                   else None)"
    by (rule rmatch.simps)
  from "7.prems" have "(case s of [] \<Rightarrow> None
       | c # cs \<Rightarrow> if cmatch ic a c then rmatch ic (Atom a Star # r) cs gs (push c cur)
                   else None) = Some g"
    unfolding unf .
  then obtain c cs where s: "s = c # cs" "cmatch ic a c"
    and m: "rmatch ic (Atom a Star # r) cs gs (push c cur) = Some g"
    by (cases s) (simp_all del: rmatch.simps split: if_splits)
  from "7.IH" [OF s m] show ?case by simp
next
  case (8 ic a r s gs cur)
  let ?inner = "case s of [] \<Rightarrow> None
                | c # cs \<Rightarrow> if cmatch ic a c
                            then rmatch ic (Atom a LazyStar # r) cs gs (push c cur) else None"
  have unf: "rmatch ic (Atom a LazyStar # r) s gs cur =
      (case rmatch ic r s gs cur of Some g \<Rightarrow> Some g | None \<Rightarrow> ?inner)"
    by (rule rmatch.simps)
  from "8.prems" have eq: "(case rmatch ic r s gs cur of Some g \<Rightarrow> Some g | None \<Rightarrow> ?inner) = Some g"
    unfolding unf .
  show ?case
  proof (cases "rmatch ic r s gs cur")
    case (Some g')
    with eq have "g' = g" by (simp only: option.case option.inject)
    with "8.IH"(1) [OF Some] show ?thesis by simp
  next
    case None
    with eq have "?inner = Some g" by (simp only: option.case)
    then obtain c cs where s: "s = c # cs" "cmatch ic a c"
      and m: "rmatch ic (Atom a LazyStar # r) cs gs (push c cur) = Some g"
      by (cases s) (simp_all del: rmatch.simps split: if_splits)
    from "8.IH"(2) [OF None s m] show ?thesis by simp
  qed
next
  case (9 ic a n r s gs cur)
  have unf: "rmatch ic (Atom a (Times n) # r) s gs cur =
      (if n = 0 then rmatch ic r s gs cur
      else (case s of [] \<Rightarrow> None
            | c # cs \<Rightarrow> if cmatch ic a c
                        then rmatch ic (Atom a (Times (n - 1)) # r) cs gs (push c cur)
                        else None))"
    by (rule rmatch.simps)
  from "9.prems" have eq: "(if n = 0 then rmatch ic r s gs cur
      else (case s of [] \<Rightarrow> None
            | c # cs \<Rightarrow> if cmatch ic a c
                        then rmatch ic (Atom a (Times (n - 1)) # r) cs gs (push c cur)
                        else None)) = Some g"
    unfolding unf .
  show ?case
  proof (cases "n = 0")
    case True
    with eq have "rmatch ic r s gs cur = Some g" by (simp del: rmatch.simps)
    from "9.IH"(1) [OF True this] show ?thesis by simp
  next
    case False
    with eq have "(case s of [] \<Rightarrow> None
            | c # cs \<Rightarrow> if cmatch ic a c
                        then rmatch ic (Atom a (Times (n - 1)) # r) cs gs (push c cur)
                        else None) = Some g"
      by (simp del: rmatch.simps)
    then obtain c cs where s: "s = c # cs" "cmatch ic a c"
      and m: "rmatch ic (Atom a (Times (n - 1)) # r) cs gs (push c cur) = Some g"
      by (cases s) (simp_all del: rmatch.simps split: if_splits)
    from "9.IH"(2) [OF False s m] show ?thesis by simp
  qed
qed

lemma rsearch_groups_length:
  "rsearch ic p s = Some g \<Longrightarrow> length g = count_list p GClose"
proof (induction s)
  case Nil
  have "rsearch ic p [] = rmatch ic p [] [] None"
    by (subst rsearch.simps) (simp split: option.splits)
  with Nil rmatch_groups_length [of ic p "[]" "[]" None g] show ?case
    by simp
next
  case (Cons c cs)
  show ?case
  proof (cases "rmatch ic p (c # cs) [] None")
    case None
    then have "rsearch ic p (c # cs) = rsearch ic p cs"
      by (subst rsearch.simps) simp
    with Cons show ?thesis by simp
  next
    case (Some g')
    then have "rsearch ic p (c # cs) = Some g'"
      by (subst rsearch.simps) simp
    with Cons.prems Some rmatch_groups_length [of ic p "c # cs" "[]" None g'] show ?thesis
      by simp
  qed
qed

lemma first_match_sound:
  "first_match ps s = Some (p, g) \<Longrightarrow>
     p \<in> set ps \<and> rsearch True (regex p) s = Some g \<and> length g = count_list (regex p) GClose"
  by (induction ps) (auto simp del: rsearch.simps dest: rsearch_groups_length split: option.splits)

lemma patterns_fields_groups:
  "p \<in> set patterns \<Longrightarrow> count_list (regex p) GClose = length (pfields p) \<and> pfields p \<noteq> []"
  by (auto simp add: regex_ev)

lemma index_where_less: "index_where P xs = Some i \<Longrightarrow> i < length xs"
  by (induction xs arbitrary: i) (auto split: if_splits)

lemma parse_timestamp_returns:
  assumes "length groups = length flds"
  shows "\<exists>ts. parse_timestamp now groups flds = Inr ts"
  using assms
  by (auto simp add: parse_timestamp_def item_at_def dest!: index_where_less
      split: option.splits sum.splits)

lemma parse_message_matched:
  assumes "first_match patterns (strip s) = Some (p, g)"
  shows "case py_float (replace_comma (hd g)) of
           Inl e \<Rightarrow> parse_message now s = Inl e
         | Inr a \<Rightarrow> (\<exists>f. parse_message now s = Inr (Some f) \<and> amount f = a
                        \<and> confidence f = pconfidence p \<and> transaction_type f = ptype p
                        \<and> raw_message f = strip s)"
proof -
  from first_match_sound [OF assms] patterns_fields_groups [of p]
  have len: "length g = length (pfields p)" and ne: "g \<noteq> []"
    by auto
  from ne have g0: "item_at g 0 = Inr (hd g)"
    by (cases g) (simp_all add: item_at_def)
  from parse_timestamp_returns [OF len] obtain ts where
    ts: "parse_timestamp now g (pfields p) = Inr ts"
    by blast
  show ?thesis
    using assms g0 ts
    by (simp add: parse_message_def extract_transaction_data_def split: sum.splits)
qed

lemma parse_message_unmatched:
  assumes "first_match patterns (strip s) = None"
  shows "case rsearch False generic_regex (strip s) of
           None \<Rightarrow> parse_message now s = Inr None
         | Some g \<Rightarrow>
            (case py_float (replace_comma (hd g)) of
               Inl e \<Rightarrow> parse_message now s = Inl e
             | Inr a \<Rightarrow>
                 parse_message now s =
                   Inr (Some \<lparr>amount = a, currency = ''INR'', transaction_type = ''other'',
                              timestamp = now, account_ref = None, merchant = None,
                              reference = None, confidence = 0.3, raw_message = strip s,
                              channel = ''sms'',
                              meta = [(''parser'', MStr ''generic_fallback'')]\<rparr>))"
proof (cases "rsearch False generic_regex (strip s)")
  case None
  with assms show ?thesis by (simp add: parse_message_def)
next
  case (Some g)
  from rsearch_groups_length [OF Some] have "length g = 1"
    by (simp add: regex_ev)
  then have "item_at g 0 = Inr (hd g)"
    by (cases g) (simp_all add: item_at_def)
  with assms Some show ?thesis
    by (simp add: parse_message_def split: sum.splits)
qed

section \<open>Spending-limit and bill-payment goals\<close>

text \<open>
  Claim C7. For a spending-limit goal to which the transaction is relevant: a transaction
  that is not a debit yields no impact; a debit yields an impact whose amount is the
  transaction amount, whose score is \<open>-1.0\<close>, \<open>-0.7\<close> or \<open>-0.3\<close> as the spent ratio
  \<open>(current_amount + amount) / target_amount\<close> exceeds 1.0, exceeds 0.8, or neither,
  whose progress is the smaller of 1 and the ratio, which is never marked achieved, and
  which is at risk exactly when the ratio exceeds 0.9. The ratio is defined for a non-zero
  target; with a zero target the division raises.
\<close>

theorem spending_limit_impact:
  assumes "goal_type g = SPENDING_LIMIT" and "is_transaction_relevant t c g"
  shows "(transaction_type t \<noteq> ''debit'' \<longrightarrow> calculate_single_goal_impact now t c g = Inr None)
    \<and> (transaction_type t = ''debit'' \<and> target_amount g \<noteq> 0 \<longrightarrow>
        (\<exists>gi. calculate_single_goal_impact now t c g = Inr (Some gi)
          \<and> impact_amount gi = amount t
          \<and> impact_score gi =
              (if (current_amount g + amount t) / target_amount g > 1 then - 1
               else if (current_amount g + amount t) / target_amount g > 0.8 then - 0.7
               else - 0.3)
          \<and> new_progress gi = min 1 ((current_amount g + amount t) / target_amount g)
          \<and> \<not> is_goal_achieved gi
          \<and> is_goal_at_risk gi = Some ((current_amount g + amount t) / target_amount g > 0.9)))"
  using assms
  by (simp add: calculate_single_goal_impact_def calculate_budget_impact_def Let_def)

lemma budget_goal_relevant: "is_transaction_relevant amazon_fact amazon_cls budget_goal"
  by (simp add: is_transaction_relevant_def amazon_fact_def amazon_cls_def goal_ev)

theorem spending_limit_impact_witness:
  "goal_type budget_goal = SPENDING_LIMIT
   \<and> is_transaction_relevant amazon_fact amazon_cls budget_goal
   \<and> is_transaction_relevant (amazon_fact\<lparr>transaction_type := ''credit''\<rparr>) amazon_cls budget_goal
   \<and> transaction_type amazon_fact = ''debit'' \<and> target_amount budget_goal \<noteq> 0
   \<and> calculate_single_goal_impact sep_01 (amazon_fact\<lparr>transaction_type := ''credit''\<rparr>)
        amazon_cls budget_goal = Inr None
   \<and> (\<exists>gi. calculate_single_goal_impact sep_01 amazon_fact amazon_cls budget_goal = Inr (Some gi)
         \<and> impact_amount gi = 1249 \<and> impact_score gi = - 0.3 \<and> new_progress gi = 9249 / 25000
         \<and> \<not> is_goal_achieved gi \<and> is_goal_at_risk gi = Some False)"
proof -
  have gt: "goal_type budget_goal = SPENDING_LIMIT"
    by (simp add: goal_ev)
  have rel: "is_transaction_relevant amazon_fact amazon_cls budget_goal"
    by (rule budget_goal_relevant)
  have rel': "is_transaction_relevant (amazon_fact\<lparr>transaction_type := ''credit''\<rparr>) amazon_cls budget_goal"
    by (simp add: is_transaction_relevant_def amazon_fact_def amazon_cls_def goal_ev)
  have deb: "transaction_type amazon_fact = ''debit''" "amount amazon_fact = 1249"
    by (simp_all add: amazon_fact_def)
  have tgt: "target_amount budget_goal = 25000" "current_amount budget_goal = 8000"
    by (simp_all add: goal_ev)
  show ?thesis
    using spending_limit_impact [OF gt rel, of sep_01]
      spending_limit_impact [OF gt rel', of sep_01] gt rel rel' deb tgt
    by simp
qed

text \<open>
  Claim C8. For a bill-payment goal to which the transaction is relevant: when the
  lower-cased raw text contains \<open>reminder\<close>, the score is \<open>-0.9\<close> and the impact
  amount is the transaction amount, whatever the amount and the kind; otherwise a credit
  against the goal \<open>cc-bill\<close> scores \<open>+0.8\<close> with the negated amount.
\<close>

theorem bill_payment_impact:
  assumes "goal_type g = BILL_PAYMENT" and "is_transaction_relevant t c g"
    and "target_amount g \<noteq> 0"
  shows "(str_in ''reminder'' (lower (raw_message t)) \<longrightarrow>
          (\<exists>gi. calculate_single_goal_impact now t c g = Inr (Some gi)
             \<and> impact_score gi = - 0.9 \<and> impact_amount gi = amount t))
    \<and> (\<not> str_in ''reminder'' (lower (raw_message t)) \<and> transaction_type t = ''credit''
          \<and> goal_id g = ''cc-bill'' \<longrightarrow>
          (\<exists>gi. calculate_single_goal_impact now t c g = Inr (Some gi)
             \<and> impact_score gi = 0.8 \<and> impact_amount gi = - amount t))"
  using assms
  by (simp add: calculate_single_goal_impact_def calculate_bill_impact_def Let_def)

lemma reminder_in_reminder_sms: "str_in ''reminder'' (lower (raw_message (reminder_fact now)))"
  by (simp add: reminder_fact_def reminder_sms_def char_ev)

lemma no_reminder_in_neft_sms: "\<not> str_in ''reminder'' (lower (raw_message neft_fact))"
  by (simp add: neft_fact_def neft_sms_def char_ev)

lemma no_reminder_in_amazon_sms: "\<not> str_in ''reminder'' (lower (raw_message amazon_fact))"
  by (simp add: amazon_fact_def amazon_sms_def char_ev)

theorem bill_payment_impact_witness:
  "goal_type cc_bill_goal = BILL_PAYMENT \<and> target_amount cc_bill_goal \<noteq> 0
   \<and> is_transaction_relevant (reminder_fact sep_01) reminder_cls cc_bill_goal
   \<and> is_transaction_relevant neft_fact neft_cls cc_bill_goal
   \<and> str_in ''reminder'' (lower (raw_message (reminder_fact sep_01)))
   \<and> \<not> str_in ''reminder'' (lower (raw_message neft_fact))
   \<and> transaction_type neft_fact = ''credit'' \<and> goal_id cc_bill_goal = ''cc-bill''
   \<and> (\<exists>gi. calculate_single_goal_impact sep_01 (reminder_fact sep_01) reminder_cls cc_bill_goal
              = Inr (Some gi)
         \<and> impact_score gi = - 0.9 \<and> impact_amount gi = 12450)
   \<and> (\<exists>gi. calculate_single_goal_impact sep_01 neft_fact neft_cls cc_bill_goal = Inr (Some gi)
         \<and> impact_score gi = 0.8 \<and> impact_amount gi = - 4999)"
proof -
  have gt: "goal_type cc_bill_goal = BILL_PAYMENT" and tgt: "target_amount cc_bill_goal \<noteq> 0"
    and gid: "goal_id cc_bill_goal = ''cc-bill''"
    by (simp_all add: goal_ev)
  have rel1: "is_transaction_relevant (reminder_fact sep_01) reminder_cls cc_bill_goal"
    by (simp add: is_transaction_relevant_def reminder_fact_def goal_ev)
  have rel2: "is_transaction_relevant neft_fact neft_cls cc_bill_goal"
    by (simp add: is_transaction_relevant_def neft_fact_def goal_ev)
  have vals: "transaction_type neft_fact = ''credit''" "amount neft_fact = 4999"
    "amount (reminder_fact sep_01) = 12450"
    by (simp_all add: neft_fact_def reminder_fact_def)
  show ?thesis
    using bill_payment_impact [OF gt rel1 tgt, of sep_01]
      bill_payment_impact [OF gt rel2 tgt, of sep_01]
      gt tgt gid rel1 rel2 vals reminder_in_reminder_sms [of sep_01] no_reminder_in_neft_sms
    by simp
qed

section \<open>Goal evaluation and the clock\<close>

lemma without_due_suffix_simps:
  "without_due_suffix [] = []"
  "without_due_suffix [due_suffix] = []"
  "without_due_suffix (x # y # ys @ [due_suffix]) = x # y # ys"
  "without_due_suffix [a, b, c, d, Txt '' due soon!''] = [a, b, c, d, Txt '' due soon!'']"
  "without_due_suffix [a, b, c, d, Txt '' payment towards your credit card bill'']
     = [a, b, c, d, Txt '' payment towards your credit card bill'']"
  by (simp_all add: without_due_suffix_def due_suffix_def butlast_append)

lemma bill_clock_free:
  assumes "target_amount g \<noteq> 0"
  shows "\<exists>r r'. calculate_bill_impact now t c g = Inr r \<and> calculate_bill_impact now' t c g = Inr r'
           \<and> clock_free r = clock_free r'"
  using assms without_due_suffix_simps(3) [of _ _ "[_, _, _]"]
  by (simp add: calculate_bill_impact_def clock_free_def Let_def without_due_suffix_simps
      due_suffix_def [symmetric])

lemma savings_clock_free:
  assumes "target_amount g \<noteq> 0"
  shows "\<exists>r r'. calculate_savings_impact now t c g = Inr r
           \<and> calculate_savings_impact now' t c g = Inr r' \<and> clock_free r = clock_free r'"
  using assms
  by (simp add: calculate_savings_impact_def clock_free_def Let_def)

lemma single_clock_free:
  assumes "target_amount g \<noteq> 0"
  shows "\<exists>r r'. calculate_single_goal_impact now t c g = Inr r
           \<and> calculate_single_goal_impact now' t c g = Inr r'
           \<and> map_option clock_free r = map_option clock_free r'"
proof -
  from bill_clock_free [OF assms, of now t c now'] obtain b b' where
    b: "calculate_bill_impact now t c g = Inr b" "calculate_bill_impact now' t c g = Inr b'"
       "clock_free b = clock_free b'"
    by blast
  from savings_clock_free [OF assms, of now t c now'] obtain s s' where
    s: "calculate_savings_impact now t c g = Inr s" "calculate_savings_impact now' t c g = Inr s'"
       "clock_free s = clock_free s'"
    by blast
  have "\<exists>r. calculate_budget_impact t c g = Inr r"
    using assms by (simp add: calculate_budget_impact_def Let_def split_beta)
  with b s show ?thesis
    by (auto simp add: calculate_single_goal_impact_def)
qed

lemma impacts_loop_clock_free:
  assumes "list_all (\<lambda>(gid, g). target_amount g \<noteq> 0) goals"
    and "map clock_free acc = map clock_free acc'"
  shows "\<exists>r r'. impacts_loop now t c goals acc = Inr r \<and> impacts_loop now' t c goals acc' = Inr r'
           \<and> map clock_free r = map clock_free r'"
  using assms
proof (induction goals arbitrary: acc acc')
  case Nil
  then show ?case by simp
next
  case (Cons p goals)
  obtain gid g where p: "p = (gid, g)" by (cases p)
  from Cons.prems p have tgt: "target_amount g \<noteq> 0"
    and rest: "list_all (\<lambda>(gid, g). target_amount g \<noteq> 0) goals"
    by simp_all
  from single_clock_free [OF tgt, of now t c now'] obtain r r' where
    r: "calculate_single_goal_impact now t c g = Inr r"
       "calculate_single_goal_impact now' t c g = Inr r'"
       "map_option clock_free r = map_option clock_free r'"
    by blast
  show ?case
  proof (cases "is_active g")
    case False
    with Cons.IH [OF rest Cons.prems(2)] p show ?thesis by simp
  next
    case True
    show ?thesis
    proof (cases r)
      case None
      with r(3) have "r' = None" by simp
      with None r True p Cons.IH [OF rest Cons.prems(2)] show ?thesis by simp
    next
      case (Some gi)
      with r(3) obtain gi' where gi': "r' = Some gi'" "clock_free gi = clock_free gi'"
        by (cases r') auto
      from Cons.prems(2) gi'(2) have "map clock_free (acc @ [gi]) = map clock_free (acc' @ [gi'])"
        by simp
      from Cons.IH [OF rest this] Some gi'(1) r True p show ?thesis by simp
    qed
  qed
qed

text \<open>
  Claim C1, amended. \<open>calculate_transaction_impact\<close> reads the clock, so it is a function
  of the fact, the classification, the registry and the clock reading. On the demo registry
  it never raises, and two evaluations at any two clock readings return lists that agree
  on goal ids, names, scores, impact amounts, progress, achieved flags and messages up to
  the due-date warning; only the at-risk flags and that warning depend on the clock.
\<close>

theorem evaluate_goals_clock:
  "\<exists>r r'. calculate_transaction_impact initialize_demo_goals now t c = Inr r
     \<and> calculate_transaction_impact initialize_demo_goals now' t c = Inr r'
     \<and> map clock_free r = map clock_free r'"
proof -
  have "list_all (\<lambda>(gid, g). target_amount g \<noteq> 0) initialize_demo_goals"
    by (simp add: initialize_demo_goals_def)
  from impacts_loop_clock_free [OF this, of "[]" "[]" now t c now'] show ?thesis
    by (simp add: calculate_transaction_impact_def)
qed

lemma amazon_impacts_sep_01:
  "calculate_transaction_impact initialize_demo_goals sep_01 amazon_fact amazon_cls =
     Inr [\<lparr>gi_goal_id = ''cc-bill'', goal_name = ''Credit Card Bill Payment'', impact_score = 0,
           message = [], impact_amount = 0, new_progress = 0, is_goal_achieved = False,
           is_goal_at_risk = Some False\<rparr>,
          \<lparr>gi_goal_id = ''monthly-budget'', goal_name = ''Monthly Spending Budget'',
           impact_score = - 0.3,
           message = [Rupee, Fixed2 1249, Txt '' spent on '', Txt ''shopping'', Txt ''. '',
                      Percent0 (15751 / 25000), Txt '' of budget remaining''],
           impact_amount = 1249, new_progress = 9249 / 25000, is_goal_achieved = False,
           is_goal_at_risk = Some False\<rparr>]"
  by (simp add: calculate_transaction_impact_def amazon_fact_def amazon_sms_def amazon_cls_def
      goal_ev impact_ev char_ev)

lemma amazon_impacts_sep_28:
  "calculate_transaction_impact initialize_demo_goals sep_28 amazon_fact amazon_cls =
     Inr [\<lparr>gi_goal_id = ''cc-bill'', goal_name = ''Credit Card Bill Payment'', impact_score = 0,
           message = [Txt '' - Due date is approaching!''], impact_amount = 0, new_progress = 0,
           is_goal_achieved = False, is_goal_at_risk = Some True\<rparr>,
          \<lparr>gi_goal_id = ''monthly-budget'', goal_name = ''Monthly Spending Budget'',
           impact_score = - 0.3,
           message = [Rupee, Fixed2 1249, Txt '' spent on '', Txt ''shopping'', Txt ''. '',
                      Percent0 (15751 / 25000), Txt '' of budget remaining''],
           impact_amount = 1249, new_progress = 9249 / 25000, is_goal_achieved = False,
           is_goal_at_risk = Some False\<rparr>]"
  by (simp add: calculate_transaction_impact_def amazon_fact_def amazon_sms_def amazon_cls_def
      goal_ev impact_ev char_ev)

text \<open>
  Claim C1 as stated fails: the same fact and classification evaluated on 1 September 2025
  and on 28 September 2025 give different lists, since the bill goal is at risk only at
  the second reading.
\<close>

theorem evaluate_goals_reads_clock:
  "calculate_transaction_impact initialize_demo_goals sep_01 amazon_fact amazon_cls
     \<noteq> calculate_transaction_impact initialize_demo_goals sep_28 amazon_fact amazon_cls"
  by (simp add: amazon_impacts_sep_01 amazon_impacts_sep_28)

section \<open>Progress and score of the produced impacts\<close>

lemma impact_score_bounded:
  assumes "0 \<le> amount t" and "calculate_single_goal_impact now t c g = Inr (Some gi)"
  shows "- 1 \<le> impact_score gi \<and> impact_score gi \<le> 1"
  using assms
  by (auto simp add: calculate_single_goal_impact_def calculate_savings_impact_def
      calculate_bill_impact_def calculate_budget_impact_def Let_def split: if_splits)

text \<open>
  Claim C2 at the reminder message: the pipeline produces one impact, for the goal
  \<open>cc-bill\<close>, and its progress is \<open>-1\<close>, outside \<open>[0, 1]\<close>. The score bound of the
  claim holds for non-negative amounts (\<open>impact_score_bounded\<close>).
\<close>

theorem reminder_progress_below_zero:
  "parse_message now reminder_sms = Inr (Some (reminder_fact now))
   \<and> classify_transaction (TransactionClassifier_init p) (reminder_fact now) = reminder_cls
   \<and> map_sum id (map new_progress)
        (calculate_transaction_impact initialize_demo_goals now (reminder_fact now) reminder_cls)
       = Inr [- 1]"
proof -
  have "map_sum id (map new_progress)
        (calculate_transaction_impact initialize_demo_goals now (reminder_fact now) reminder_cls)
       = Inr [- 1]"
    by (simp add: calculate_transaction_impact_def reminder_fact_def reminder_sms_def
        reminder_cls_def initialize_demo_goals_def calculate_single_goal_impact_def
        is_transaction_relevant_def calculate_bill_impact_def Let_def char_ev)
  then show ?thesis
    by (simp add: parse_message_reminder classify_reminder)
qed

section \<open>The sample messages through extraction and classification\<close>

text \<open>
  Claim C3 as stated fails: the amount of the extracted fact is at most 2000, and the
  subcategory list of its classification is not empty.
\<close>

theorem amazon_subcategories_not_empty:
  "parse_message sep_01 amazon_sms = Inr (Some amazon_fact)
   \<and> amount amazon_fact \<le> 2000
   \<and> subcategories (classify_transaction (TransactionClassifier_init None) amazon_fact) \<noteq> []"
  by (simp add: parse_message_amazon classify_amazon amazon_cls_def) (simp add: amazon_fact_def)

text \<open>
  Claim C3, amended. The sample card message is extracted as a debit of 1249.0 at merchant
  \<open>AMAZON\<close> with confidence 0.95; it is classified as \<open>shopping\<close> with confidence at
  least 0.8, and its subcategory list is \<open>[online_marketplace]\<close>. For a shopping
  classification the list is empty exactly when the amount is at most 2000 and the
  merchant does not contain \<open>amazon\<close>.
\<close>

theorem amazon_extract_classify:
  "parse_message now amazon_sms = Inr (Some amazon_fact)
   \<and> amount amazon_fact = 1249 \<and> transaction_type amazon_fact = ''debit''
   \<and> merchant amazon_fact = Some ''AMAZON'' \<and> confidence amazon_fact = 0.95
   \<and> category (classify_transaction (TransactionClassifier_init p) amazon_fact) = ''shopping''
   \<and> cls_confidence (classify_transaction (TransactionClassifier_init p) amazon_fact) \<ge> 0.8
   \<and> subcategories (classify_transaction (TransactionClassifier_init p) amazon_fact)
       = [''online_marketplace'']
   \<and> (generate_subcategories t ''shopping'' = [] \<longleftrightarrow>
        amount t \<le> 2000 \<and> \<not> str_in ''amazon'' (lower (or_empty (merchant t))))"
proof -
  have "generate_subcategories t ''shopping'' = [] \<longleftrightarrow>
        amount t \<le> 2000 \<and> \<not> str_in ''amazon'' (lower (or_empty (merchant t)))"
    by (simp add: generate_subcategories_def)
  moreover have "amount amazon_fact = 1249 \<and> transaction_type amazon_fact = ''debit''
   \<and> merchant amazon_fact = Some ''AMAZON'' \<and> confidence amazon_fact = 0.95"
    by (simp add: amazon_fact_def)
  ultimately show ?thesis
    by (simp add: parse_message_amazon classify_amazon amazon_cls_def)
qed

text \<open>
  Claim C4 at the text \<open>INR ,\<close>: no declared pattern matches, the generic amount
  pattern matches with the group \<open>,\<close>, the group without commas is the empty string, and
  \<open>float\<close> raises ValueError, which \<open>parse_message\<close> does not catch.
\<close>

theorem generic_fallback_raises:
  "rsearch False generic_regex (strip ''INR ,'') = Some ['','']
   \<and> py_float (replace_comma '','') = Inl ValueError
   \<and> parse_message now ''INR ,'' = Inl ValueError"
  by (simp add: parse_ev regex_ev char_ev)

text \<open>
  Claim C5 at a text the first declared pattern matches with an amount group without
  digits: the pattern's confidence is 0.95, and \<open>parse_message\<close> raises ValueError
  instead of returning a fact.
\<close>

theorem matched_pattern_raises:
  "first_match patterns (strip no_digit_card_sms)
     = Some (patterns ! 0, ['','', ''HDFC Credit Card'', ''XX1234'', ''AMAZON'', ''23-09-2025'', ''1435''])
   \<and> pconfidence (patterns ! 0) = 0.95
   \<and> parse_message now no_digit_card_sms = Inl ValueError"
  by (simp add: no_digit_card_sms_def parse_ev regex_ev char_ev)

text \<open>
  Claim C6. The rule-based predictor is the first-match evaluation of the ordered decision
  list, whose categories and confidences are shopping 0.9, utilities 0.95, entertainment
  0.9, bills 0.85, transfer 0.8, fee 0.75, cashback 0.9, other 0.3. For the fact extracted
  from the sample UPI message both the entertainment rule and the transfer rule hold, and
  the result is \<open>entertainment\<close> with confidence at least 0.8.
\<close>

theorem rule_based_predict_decision_list:
  "first_rule spec_decision_list f = Some (rule_based_predict f)
   \<and> map snd spec_decision_list =
       [(''shopping'', 0.9), (''utilities'', 0.95), (''entertainment'', 0.9), (''bills'', 0.85),
        (''transfer'', 0.8), (''fee'', 0.75), (''cashback'', 0.9), (''other'', 0.3)]
   \<and> parse_message now netflix_sms = Inr (Some netflix_fact)
   \<and> fst (spec_decision_list ! 2) (extract_features netflix_fact)
   \<and> fst (spec_decision_list ! 4) (extract_features netflix_fact)
   \<and> category (classify_transaction (TransactionClassifier_init p) netflix_fact) = ''entertainment''
   \<and> cls_confidence (classify_transaction (TransactionClassifier_init p) netflix_fact) \<ge> 0.8"
proof -
  have a: "first_rule spec_decision_list f = Some (rule_based_predict f)"
    by (simp add: spec_decision_list_def rule_based_predict_def spec_merchant_def spec_kind_def
        spec_raw_def Let_def)
  have b: "map snd spec_decision_list =
       [(''shopping'', 0.9), (''utilities'', 0.95), (''entertainment'', 0.9), (''bills'', 0.85),
        (''transfer'', 0.8), (''fee'', 0.75), (''cashback'', 0.9), (''other'', 0.3)]"
    by (simp add: spec_decision_list_def)
  have c: "fst (spec_decision_list ! 2) (extract_features netflix_fact)"
    by (simp add: spec_decision_list_def spec_merchant_def netflix_fact_def netflix_sms_def
        classify_ev char_ev)
  have d: "fst (spec_decision_list ! 4) (extract_features netflix_fact)"
    by (simp add: spec_decision_list_def spec_raw_def netflix_fact_def netflix_sms_def
        classify_ev char_ev)
  have e: "classify_transaction (TransactionClassifier_init p) netflix_fact =
      \<lparr>category = ''entertainment'', cls_confidence = 0.9, subcategories = [],
       features_used = feature_names\<rparr>"
    by (simp add: netflix_fact_def netflix_sms_def classify_ev char_ev)
  from a b c d show ?thesis
    by (simp add: e parse_message_netflix)
qed

text \<open>
  Claim C9. \<open>classify_transaction\<close> returns a result for every fact, and the result is
  determined by the fact alone: classifiers constructed with any two model paths return
  the same category, confidence, subcategories and feature names. The category is one of
  the label set, the confidence is at least 0.3, and it is 0.3 exactly for \<open>other\<close>.
\<close>

theorem classify_pure_total:
  "classify_transaction (TransactionClassifier_init p) t
     = classify_transaction (TransactionClassifier_init q) t
   \<and> classify_transaction (TransactionClassifier_init p) t =
       \<lparr>category = fst (rule_based_predict (extract_features t)),
        cls_confidence = snd (rule_based_predict (extract_features t)),
        subcategories = generate_subcategories t (fst (rule_based_predict (extract_features t))),
        features_used = feature_names\<rparr>
   \<and> category (classify_transaction (TransactionClassifier_init p) t)
       \<in> set (tf_categories (tflite_interface (TransactionClassifier_init p)))
   \<and> 0.3 \<le> cls_confidence (classify_transaction (TransactionClassifier_init p) t)
   \<and> cls_confidence (classify_transaction (TransactionClassifier_init p) t) \<le> 0.95
   \<and> (category (classify_transaction (TransactionClassifier_init p) t) = ''other''
        \<longleftrightarrow> cls_confidence (classify_transaction (TransactionClassifier_init p) t) = 0.3)"
proof -
  have eq: "classify_transaction (TransactionClassifier_init r) t =
       \<lparr>category = fst (rule_based_predict (extract_features t)),
        cls_confidence = snd (rule_based_predict (extract_features t)),
        subcategories = generate_subcategories t (fst (rule_based_predict (extract_features t))),
        features_used = feature_names\<rparr>" for r
    by (simp add: classify_transaction_def predict_init features_used_names Let_def split_beta)
  have cats: "tf_categories (tflite_interface (TransactionClassifier_init p)) =
      [''shopping'', ''utilities'', ''food_dining'', ''transportation'',
       ''entertainment'', ''healthcare'', ''education'', ''bills'',
       ''transfer'', ''investment'', ''fee'', ''cashback'', ''other'']"
    by (simp add: TransactionClassifier_init_def TFLiteInterface_init_def)
  from rule_based_predict_range [of "extract_features t"] show ?thesis
    unfolding eq cats by auto
qed

section \<open>Zero-valued impact records\<close>

text \<open>
  Claim C10 as stated fails: on 28 September 2025 the sample card message, a debit without
  \<open>reminder\<close> that is relevant to the bill goal, yields a record with score 0 and amount 0
  whose message is the due-date warning, not the empty string.
\<close>

theorem bill_zero_record_has_message:
  "goal_type cc_bill_goal = BILL_PAYMENT
   \<and> is_transaction_relevant amazon_fact amazon_cls cc_bill_goal
   \<and> \<not> str_in ''reminder'' (lower (raw_message amazon_fact))
   \<and> transaction_type amazon_fact \<noteq> ''credit''
   \<and> calculate_single_goal_impact sep_28 amazon_fact amazon_cls cc_bill_goal =
       Inr (Some \<lparr>gi_goal_id = ''cc-bill'', goal_name = ''Credit Card Bill Payment'',
                  impact_score = 0, message = [Txt '' - Due date is approaching!''],
                  impact_amount = 0, new_progress = 0, is_goal_achieved = False,
                  is_goal_at_risk = Some True\<rparr>)"
  by (simp add: amazon_fact_def amazon_sms_def amazon_cls_def goal_ev impact_ev char_ev)

text \<open>
  Claim C10, amended. A relevant transaction that is neither credit nor debit yields, for a
  savings goal, a record with score 0, amount 0 and an empty message. A relevant
  transaction without \<open>reminder\<close> that is not a credit against \<open>cc-bill\<close> yields, for a
  bill-payment goal, a record with score 0 and amount 0 whose message is empty unless the
  goal is at risk (a deadline at most 5 days away and progress below 0.8), and is the
  due-date warning then. The targets are non-zero.
\<close>

theorem zero_record_impact:
  assumes "is_transaction_relevant t c g" and "target_amount g \<noteq> 0"
  shows "(goal_type g = SAVINGS \<and> transaction_type t \<noteq> ''credit'' \<and> transaction_type t \<noteq> ''debit''
          \<longrightarrow> (\<exists>gi. calculate_single_goal_impact now t c g = Inr (Some gi)
                 \<and> impact_score gi = 0 \<and> impact_amount gi = 0 \<and> message gi = []))
    \<and> (goal_type g = BILL_PAYMENT \<and> \<not> str_in ''reminder'' (lower (raw_message t))
          \<and> \<not> (transaction_type t = ''credit'' \<and> goal_id g = ''cc-bill'')
          \<longrightarrow> (\<exists>gi. calculate_single_goal_impact now t c g = Inr (Some gi)
                 \<and> impact_score gi = 0 \<and> impact_amount gi = 0
                 \<and> message gi = (if is_goal_at_risk gi = Some True then [due_suffix] else [])
                 \<and> is_goal_at_risk gi =
                     at_risk_within now (deadline g) (\<lambda>d. d \<le> 5) (new_progress gi < 0.8)))"
  using assms
  by (simp add: calculate_single_goal_impact_def calculate_savings_impact_def
      calculate_bill_impact_def due_suffix_def Let_def)

theorem zero_record_impact_witness:
  "is_transaction_relevant other_fact investment_cls savings_goal
   \<and> target_amount savings_goal \<noteq> 0 \<and> goal_type savings_goal = SAVINGS
   \<and> transaction_type other_fact \<noteq> ''credit'' \<and> transaction_type other_fact \<noteq> ''debit''
   \<and> (\<exists>gi. calculate_single_goal_impact sep_01 other_fact investment_cls savings_goal
              = Inr (Some gi)
         \<and> impact_score gi = 0 \<and> impact_amount gi = 0 \<and> message gi = [])
   \<and> is_transaction_relevant amazon_fact amazon_cls cc_bill_goal
   \<and> target_amount cc_bill_goal \<noteq> 0 \<and> goal_type cc_bill_goal = BILL_PAYMENT
   \<and> \<not> str_in ''reminder'' (lower (raw_message amazon_fact))
   \<and> \<not> (transaction_type amazon_fact = ''credit'' \<and> goal_id cc_bill_goal = ''cc-bill'')
   \<and> (\<exists>gi. calculate_single_goal_impact sep_01 amazon_fact amazon_cls cc_bill_goal
              = Inr (Some gi)
         \<and> impact_score gi = 0 \<and> impact_amount gi = 0 \<and> message gi = []
         \<and> is_goal_at_risk gi = Some False)"
proof -
  have rel1: "is_transaction_relevant other_fact investment_cls savings_goal"
    by (simp add: is_transaction_relevant_def other_fact_def investment_cls_def goal_ev)
  have rel2: "is_transaction_relevant amazon_fact amazon_cls cc_bill_goal"
    by (simp add: is_transaction_relevant_def amazon_fact_def amazon_sms_def amazon_cls_def
        goal_ev char_ev)
  have g1: "target_amount savings_goal \<noteq> 0" "goal_type savings_goal = SAVINGS"
    and g2: "target_amount cc_bill_goal \<noteq> 0" "goal_type cc_bill_goal = BILL_PAYMENT"
    by (simp_all add: goal_ev)
  have k1: "transaction_type other_fact \<noteq> ''credit''" "transaction_type other_fact \<noteq> ''debit''"
    by (simp_all add: other_fact_def)
  have k2: "\<not> (transaction_type amazon_fact = ''credit'' \<and> goal_id cc_bill_goal = ''cc-bill'')"
    by (simp add: amazon_fact_def)
  have far: "at_risk_within sep_01 (deadline cc_bill_goal) (\<lambda>d. d \<le> 5) b = Some False" for b
    by (simp add: goal_ev at_risk_within_def delta_days_def to_microseconds_def toordinal_def
        days_before_year_def days_before_month_def is_leap_def)
  have s: "\<exists>gi. calculate_single_goal_impact sep_01 other_fact investment_cls savings_goal
              = Inr (Some gi)
         \<and> impact_score gi = 0 \<and> impact_amount gi = 0 \<and> message gi = []"
    using zero_record_impact [OF rel1 g1(1), of sep_01] g1(2) k1 by blast
  have "\<exists>gi. calculate_single_goal_impact sep_01 amazon_fact amazon_cls cc_bill_goal
              = Inr (Some gi)
         \<and> impact_score gi = 0 \<and> impact_amount gi = 0
         \<and> message gi = (if is_goal_at_risk gi = Some True then [due_suffix] else [])
         \<and> is_goal_at_risk gi =
              at_risk_within sep_01 (deadline cc_bill_goal) (\<lambda>d. d \<le> 5) (new_progress gi < 0.8)"
    using zero_record_impact [OF rel2 g2(1), of sep_01] g2(2) k2 no_reminder_in_amazon_sms
    by blast
  then obtain gi where gi:
    "calculate_single_goal_impact sep_01 amazon_fact amazon_cls cc_bill_goal = Inr (Some gi)"
    "impact_score gi = 0" "impact_amount gi = 0"
    "message gi = (if is_goal_at_risk gi = Some True then [due_suffix] else [])"
    "is_goal_at_risk gi = Some False"
    unfolding far by blast
  then have b: "\<exists>gi. calculate_single_goal_impact sep_01 amazon_fact amazon_cls cc_bill_goal
              = Inr (Some gi)
         \<and> impact_score gi = 0 \<and> impact_amount gi = 0 \<and> message gi = []
         \<and> is_goal_at_risk gi = Some False"
    by simp
  from s b rel1 rel2 g1 g2 k1 k2 no_reminder_in_amazon_sms show ?thesis
    by blast
qed

end
